theory Spec2Isabelle
  imports Main "HOL-Library.List_Lexorder" "HOL-Library.Char_ord"
begin

section \<open>The update job of the embryo image search engine (src/update-data.py)\<close>

text \<open>
  The script is one linear batch job. Everything it reads from outside is a field of the
  environment record below, every file it touches is a field of the state record, every
  exception is a value of the error type, and the run is a function from an environment and
  a state to an outcome and the state it leaves behind.

  Filenames are Python strings, compared as Python compares them (by code point, a proper
  prefix first): the lexicographic order on character lists.
\<close>

subsection \<open>Errors\<close>

datatype error =
    TypeError
  | NameError
  | FileNotFoundError
  | OSError
  | URLError
  | ParserError
  | UnpicklingError
  | EOFError
  | RuntimeError
  | AssertionError

subsection \<open>The numpy operations the filter relies on\<close>

text \<open>
  \<^verbatim>\<open>np.unique\<close> returns the sorted unique elements of an array;
  \<^verbatim>\<open>np.setdiff1d(ar1, ar2)\<close> (with the default \<^verbatim>\<open>assume_unique=False\<close>) takes the
  unique elements of both arguments and keeps those of the first that are not in the second.
\<close>

definition unique :: "string list \<Rightarrow> string list" where
  "unique ar = remdups_adj (sort ar)"

definition setdiff1d :: "string list \<Rightarrow> string list \<Rightarrow> string list" where
  "setdiff1d ar1 ar2 =
     (let a1 = unique ar1; a2 = unique ar2
      in filter (\<lambda>x. x \<notin> set a2) a1)"

subsection \<open>Command line (lines 31 to 34)\<close>

text \<open>
  \<^verbatim>\<open>
  if len(sys.argv) == 1:
      raise TypeError(...)
  elif len(sys.argv) == 2:
      image_home_dir = sys.argv[1]
  \<close>
  There is no \<^verbatim>\<open>else\<close>: with any other number of arguments the name
  \<^verbatim>\<open>image_home_dir\<close> stays unbound, which is the value \<open>None\<close> here.
\<close>

definition grab_image_home_dir :: "string list \<Rightarrow> error + string option" where
  "grab_image_home_dir argv =
     (if length argv = 1 then Inl TypeError
      else if length argv = 2 then Inr (Some (argv ! 1))
      else Inr None)"

subsection \<open>The filter (lines 61 to 68)\<close>

text \<open>
  The first column of the parsed download holds what the CSV parser made of each first
  field: a string, or a value that is not a string (a blank field becomes the float NaN, a
  column of digits becomes numbers).
\<close>

datatype cell = Str string | NotStr

text \<open>The strings among some cells, in order.\<close>

fun str_values :: "cell list \<Rightarrow> string list" where
  "str_values [] = []"
| "str_values (Str name # rest) = name # str_values rest"
| "str_values (NotStr # rest) = str_values rest"

text \<open>
  \<^verbatim>\<open>
  images_to_remove = np.array([], dtype=object)
  for fname in new_image_fnames:
      already_saved = fname in database_image_filenames
      doesnt_exist = not os.path.exists(image_home_dir+fname)
      if already_saved or doesnt_exist:
          images_to_remove = np.append(images_to_remove, fname)
  new_image_fnames = np.setdiff1d(new_image_fnames, images_to_remove)
  \<close>
  The path that is looked up is the directory string immediately followed by the filename.
  In line 64 the name \<^verbatim>\<open>image_home_dir\<close> is read first, which raises
  \<^verbatim>\<open>NameError\<close> when it is unbound, and then \<^verbatim>\<open>+\<close> raises \<^verbatim>\<open>TypeError\<close> when
  \<^verbatim>\<open>fname\<close> is not a string; with no iteration nothing is raised. When the loop has
  returned, every fetched value is a string, and these strings are what
  \<^verbatim>\<open>np.setdiff1d\<close> receives.
\<close>

fun remove_loop ::
  "string option \<Rightarrow> (string \<Rightarrow> bool) \<Rightarrow> string list \<Rightarrow> cell list \<Rightarrow> string list
     \<Rightarrow> error + string list" where
  "remove_loop image_home_dir path_exists database_image_filenames [] images_to_remove =
     Inr images_to_remove"
| "remove_loop image_home_dir path_exists database_image_filenames (fname # rest) images_to_remove =
     (case image_home_dir of
        None \<Rightarrow> Inl NameError
      | Some d \<Rightarrow>
          (case fname of
             NotStr \<Rightarrow> Inl TypeError
           | Str name \<Rightarrow>
               (let already_saved = name \<in> set database_image_filenames;
                    doesnt_exist = \<not> path_exists (d @ name)
                in remove_loop image_home_dir path_exists database_image_filenames rest
                     (if already_saved \<or> doesnt_exist then images_to_remove @ [name]
                      else images_to_remove))))"

definition filter_new_images ::
  "string option \<Rightarrow> (string \<Rightarrow> bool) \<Rightarrow> string list \<Rightarrow> cell list \<Rightarrow> error + string list" where
  "filter_new_images image_home_dir path_exists database_image_filenames new_image_fnames =
     (case remove_loop image_home_dir path_exists database_image_filenames new_image_fnames [] of
        Inl e \<Rightarrow> Inl e
      | Inr images_to_remove \<Rightarrow>
          Inr (setdiff1d (str_values new_image_fnames) images_to_remove))"

subsection \<open>Data\<close>

text \<open>
  A record of the fetched metadata has the three columns the script names when it parses the
  download (\<^verbatim>\<open>names = ["fname", "stage", "locations"]\<close>). The persisted dataset is a
  pickled triple of the filename array and the two prediction tensors; a tensor is the list
  of its rows along dimension 0, and a row (one prediction vector) is a value of an
  arbitrary type \<open>'p\<close>, since the script never looks inside one.
\<close>

record metadata =
  fname :: cell
  stage :: string
  locations :: string

record 'p database =
  filenames :: "string list"
  stage_preds :: "'p list"
  locations_preds :: "'p list"

text \<open>
  What \<^verbatim>\<open>../data/database-image-predictions.pkl\<close> holds: nothing (no such file), a
  pickle that was cut short (the file is opened with mode \<^verbatim>\<open>'wb'\<close>, which empties it
  before anything is dumped; loading it raises \<^verbatim>\<open>EOFError\<close>), or a complete pickle of
  a dataset.
\<close>

datatype 'p pickle_file = Absent | Truncated | Pickled "'p database"

record date =
  year :: nat
  month :: nat
  day :: nat

text \<open>The calls the script makes to the outside, in the order it makes them.\<close>

datatype event =
    Print string
  | Mkdir string
  | Urlretrieve string
  | CreateDatabunch
  | LoadLearner string
  | GetPreds string
  | SaveObject
  | WriteLastUpdated
  | AppendLog

text \<open>The calls that return no data and may raise; the environment says which of them do.\<close>

datatype step =
    Databunch
  | LoadStageModel
  | LoadLocationsModel
  | OpenDatabaseForWriting
  | PickleDump
  | OpenLastUpdatedForWriting
  | WriteDate
  | OpenLogForAppending
  | WriteLogLine

text \<open>
  The environment of one run: the command line, the date, the metadata service
  (\<open>urlretrieve\<close> maps the URL to the downloaded text or to the exception raised),
  the CSV parser, the image tree (\<open>path_exists\<close> is \<^verbatim>\<open>os.path.exists\<close>), the two models
  (each maps the image directory and the filenames to the first component of what
  \<^verbatim>\<open>get_preds\<close> returns, or to the exception raised) and the faults.
\<close>

record 'p env =
  argv :: "string list"
  today :: date
  urlretrieve :: "string \<Rightarrow> error + string"
  read_csv :: "string \<Rightarrow> error + metadata list"
  path_exists :: "string \<Rightarrow> bool"
  stage_get_preds :: "string \<Rightarrow> string list \<Rightarrow> error + 'p list"
  locations_get_preds :: "string \<Rightarrow> string list \<Rightarrow> error + 'p list"
  fault :: "step \<Rightarrow> error option"

text \<open>
  The files under the script's own directory, each with its content (\<open>None\<close>: no such
  file), and the calls made so far.
\<close>

record 'p state =
  temporary_downloads :: bool
  new_images_csv :: "string option"
  last_updated :: "string option"
  database_pkl :: "'p pickle_file"
  data_updates_log :: "string option"
  trace :: "event list"

definition emit :: "event \<Rightarrow> 'p state \<Rightarrow> 'p state" where
  "emit ev s = s\<lparr>trace := trace s @ [ev]\<rparr>"

subsection \<open>Formatting\<close>

definition digit :: "nat \<Rightarrow> char" where
  "digit k = ''0123456789'' ! (k mod 10)"

text \<open>\<^verbatim>\<open>str(n)\<close> for a length \<open>n\<close>.\<close>

fun str_nat :: "nat \<Rightarrow> string" where
  "str_nat n = (if n < 10 then [digit n] else str_nat (n div 10) @ [digit (n mod 10)])"

declare str_nat.simps [simp del]

text \<open>\<^verbatim>\<open>' '.join(names)\<close>.\<close>

fun join_spaces :: "string list \<Rightarrow> string" where
  "join_spaces [] = []"
| "join_spaces [x] = x"
| "join_spaces (x # y # ys) = x @ '' '' @ join_spaces (y # ys)"

text \<open>\<^verbatim>\<open>strftime("%m/%d/%y")\<close>: month, day and year of the century, two digits each.\<close>

definition two_digits :: "nat \<Rightarrow> string" where
  "two_digits n = [digit (n div 10), digit n]"

definition strftime :: "date \<Rightarrow> string" where
  "strftime d = two_digits (month d) @ ''/'' @ two_digits (day d) @ ''/'' @ two_digits (year d mod 100)"

definition log_line :: "string \<Rightarrow> string list \<Rightarrow> string" where
  "log_line current_date new_image_fnames =
     current_date @ '': Added '' @ str_nat (length new_image_fnames) @ '' images (''
       @ join_spaces new_image_fnames @ '')'' @ [CHR 0x0A]"

subsection \<open>Start of the run (lines 36 to 58)\<close>

text \<open>
  \<^verbatim>\<open>os.mkdir\<close> creates the download directory unless it exists (\<^verbatim>\<open>FileExistsError\<close>
  is swallowed); the checkpoint is read; the metadata is downloaded into
  \<^verbatim>\<open>temporary-downloads/new_images.csv\<close> and parsed; the dataset is unpickled.
\<close>

definition new_images_metadata_url :: "string \<Rightarrow> string" where
  "new_images_metadata_url since =
     ''http://geisha.arizona.edu/geisha/Images/metadata?scope=public&since='' @ since"

definition startup :: "'p env \<Rightarrow> 'p state \<Rightarrow> (error + cell list \<times> 'p database) \<times> 'p state" where
  "startup env s0 =
     (let s1 = emit (Mkdir ''temporary-downloads'') (s0\<lparr>temporary_downloads := True\<rparr>)
      in case last_updated s1 of
           None \<Rightarrow> (Inl FileNotFoundError, s1)
         | Some since \<Rightarrow>
             (let s2 = emit (Print ''Checking for new images'') s1;
                  url = new_images_metadata_url since;
                  s3 = emit (Urlretrieve url) s2
              in case urlretrieve env url of
                   Inl e \<Rightarrow> (Inl e, s3)
                 | Inr payload \<Rightarrow>
                     (let s4 = s3\<lparr>new_images_csv := Some payload\<rparr>
                      in case read_csv env payload of
                           Inl e \<Rightarrow> (Inl e, s4)
                         | Inr new_image_metadata \<Rightarrow>
                             (case database_pkl s4 of
                                Absent \<Rightarrow> (Inl FileNotFoundError, s4)
                              | Truncated \<Rightarrow> (Inl EOFError, s4)
                              | Pickled db \<Rightarrow> (Inr (map fname new_image_metadata, db), s4)))))"

subsection \<open>Inference (lines 74 to 93)\<close>

definition inference ::
  "'p env \<Rightarrow> string option \<Rightarrow> string list \<Rightarrow> 'p state \<Rightarrow> (error + 'p list \<times> 'p list) \<times> 'p state" where
  "inference env image_home_dir new_image_fnames s0 =
     (case image_home_dir of
        None \<Rightarrow> (Inl NameError, s0)
      | Some d \<Rightarrow>
          (let s1 = emit CreateDatabunch s0
           in case fault env Databunch of
                Some e \<Rightarrow> (Inl e, s1)
              | None \<Rightarrow>
                  (let s2 = emit (Print ''Calculating new predictions'') s1;
                       s3 = emit (LoadLearner ''stage-prediction-model.pkl'') s2
                   in case fault env LoadStageModel of
                        Some e \<Rightarrow> (Inl e, s3)
                      | None \<Rightarrow>
                          (let s4 = emit (LoadLearner ''locations-prediction-model.pkl'') s3
                           in case fault env LoadLocationsModel of
                                Some e \<Rightarrow> (Inl e, s4)
                              | None \<Rightarrow>
                                  (let s5 = emit (GetPreds ''stage'') s4
                                   in case stage_get_preds env d new_image_fnames of
                                        Inl e \<Rightarrow> (Inl e, s5)
                                      | Inr new_stage_preds \<Rightarrow>
                                          (let s6 = emit (GetPreds ''locations'') s5
                                           in case locations_get_preds env d new_image_fnames of
                                                Inl e \<Rightarrow> (Inl e, s6)
                                              | Inr new_locations_preds \<Rightarrow>
                                                  (Inr (new_stage_preds, new_locations_preds), s6)))))))"

subsection \<open>Merge and the two assertions (lines 96 to 100)\<close>

definition merge ::
  "'p database \<Rightarrow> string list \<Rightarrow> 'p list \<Rightarrow> 'p list \<Rightarrow> error + 'p database" where
  "merge db new_image_fnames new_stage_preds new_locations_preds =
     (let updated = \<lparr>filenames = filenames db @ new_image_fnames,
                     stage_preds = stage_preds db @ new_stage_preds,
                     locations_preds = locations_preds db @ new_locations_preds\<rparr>
      in if length new_image_fnames \<noteq> length new_stage_preds then Inl AssertionError
         else if length new_stage_preds \<noteq> length new_locations_preds then Inl AssertionError
         else Inr updated)"

subsection \<open>Saving and logging (lines 103 to 118)\<close>

definition save_object :: "'p env \<Rightarrow> 'p database \<Rightarrow> 'p state \<Rightarrow> (error + unit) \<times> 'p state" where
  "save_object env obj s0 =
     (let s1 = emit SaveObject s0
      in case fault env OpenDatabaseForWriting of
           Some e \<Rightarrow> (Inl e, s1)
         | None \<Rightarrow>
             (case fault env PickleDump of
                Some e \<Rightarrow> (Inl e, s1\<lparr>database_pkl := Truncated\<rparr>)
              | None \<Rightarrow> (Inr (), s1\<lparr>database_pkl := Pickled obj\<rparr>)))"

definition write_last_updated :: "'p env \<Rightarrow> string \<Rightarrow> 'p state \<Rightarrow> (error + unit) \<times> 'p state" where
  "write_last_updated env current_date s0 =
     (let s1 = emit WriteLastUpdated s0
      in case fault env OpenLastUpdatedForWriting of
           Some e \<Rightarrow> (Inl e, s1)
         | None \<Rightarrow>
             (case fault env WriteDate of
                Some e \<Rightarrow> (Inl e, s1\<lparr>last_updated := Some []\<rparr>)
              | None \<Rightarrow> (Inr (), s1\<lparr>last_updated := Some current_date\<rparr>)))"

definition append_log :: "'p env \<Rightarrow> string \<Rightarrow> 'p state \<Rightarrow> (error + unit) \<times> 'p state" where
  "append_log env line s0 =
     (let s1 = emit AppendLog s0
      in case fault env OpenLogForAppending of
           Some e \<Rightarrow> (Inl e, s1)
         | None \<Rightarrow>
             (let old = (case data_updates_log s1 of None \<Rightarrow> [] | Some text \<Rightarrow> text)
              in case fault env WriteLogLine of
                   Some e \<Rightarrow> (Inl e, s1\<lparr>data_updates_log := Some old\<rparr>)
                 | None \<Rightarrow> (Inr (), s1\<lparr>data_updates_log := Some (old @ line)\<rparr>)))"

definition persist ::
  "'p env \<Rightarrow> string list \<Rightarrow> 'p database \<Rightarrow> 'p state \<Rightarrow> (error + unit) \<times> 'p state" where
  "persist env new_image_fnames updated s0 =
     (case save_object env updated s0 of
        (Inl e, s1) \<Rightarrow> (Inl e, s1)
      | (Inr _, s1) \<Rightarrow>
          (let current_date = strftime (today env)
           in case write_last_updated env current_date s1 of
                (Inl e, s2) \<Rightarrow> (Inl e, s2)
              | (Inr _, s2) \<Rightarrow>
                  (case append_log env (log_line current_date new_image_fnames) s2 of
                     (Inl e, s3) \<Rightarrow> (Inl e, s3)
                   | (Inr _, s3) \<Rightarrow>
                       (Inr (),
                        emit (Print (''Updated with '' @ str_nat (length new_image_fnames) @ '' images'')) s3))))"

subsection \<open>Selecting the new images (lines 31 to 68)\<close>

text \<open>
  Everything up to the rebinding of \<^verbatim>\<open>new_image_fnames\<close> in line 68: the result is the
  image directory (if bound), the filtered filenames and the dataset as loaded.
\<close>

definition select_new_images ::
  "'p env \<Rightarrow> 'p state \<Rightarrow> (error + string option \<times> string list \<times> 'p database) \<times> 'p state" where
  "select_new_images env s0 =
     (case grab_image_home_dir (argv env) of
        Inl e \<Rightarrow> (Inl e, s0)
      | Inr image_home_dir \<Rightarrow>
          (case startup env s0 of
             (Inl e, s1) \<Rightarrow> (Inl e, s1)
           | (Inr (new_image_fnames, db), s1) \<Rightarrow>
               (case filter_new_images image_home_dir (path_exists env) (filenames db) new_image_fnames of
                  Inl e \<Rightarrow> (Inl e, s1)
                | Inr new \<Rightarrow> (Inr (image_home_dir, new, db), s1))))"

subsection \<open>The update branch (lines 71 to 118) and the whole run\<close>

definition update ::
  "'p env \<Rightarrow> string option \<Rightarrow> string list \<Rightarrow> 'p database \<Rightarrow> 'p state \<Rightarrow> (error + unit) \<times> 'p state" where
  "update env image_home_dir new_image_fnames db s0 =
     (case inference env image_home_dir new_image_fnames s0 of
        (Inl e, s1) \<Rightarrow> (Inl e, s1)
      | (Inr (new_stage_preds, new_locations_preds), s1) \<Rightarrow>
          (case merge db new_image_fnames new_stage_preds new_locations_preds of
             Inl e \<Rightarrow> (Inl e, s1)
           | Inr updated \<Rightarrow> persist env new_image_fnames updated s1))"

definition run :: "'p env \<Rightarrow> 'p state \<Rightarrow> (error + unit) \<times> 'p state" where
  "run env s0 =
     (case select_new_images env s0 of
        (Inl e, s1) \<Rightarrow> (Inl e, s1)
      | (Inr (image_home_dir, new_image_fnames, db), s1) \<Rightarrow>
          if length new_image_fnames > 0 then update env image_home_dir new_image_fnames db s1
          else (Inr (), emit (Print ''Data already up to date'') s1))"

subsection \<open>A worked run\<close>

text \<open>
  The run described among the testable properties: the dataset holds \<^verbatim>\<open>a.jpg\<close> and
  \<^verbatim>\<open>b.jpg\<close>, the service reports \<^verbatim>\<open>b.jpg\<close>, \<^verbatim>\<open>c.jpg\<close> and \<^verbatim>\<open>d.jpg\<close>, and of
  these only \<^verbatim>\<open>c.jpg\<close> is on disk. Prediction vectors are numbers here, each model
  returns one per filename, and nothing faults.
\<close>

definition scenario_csv :: string where
  "scenario_csv =
     ''b.jpg,HH10,heart'' @ [CHR 0x0A] @ ''c.jpg,HH12,limb'' @ [CHR 0x0A]
       @ ''d.jpg,HH8,somites'' @ [CHR 0x0A]"

definition scenario_metadata :: "metadata list" where
  "scenario_metadata =
     [\<lparr>fname = Str ''b.jpg'', stage = ''HH10'', locations = ''heart''\<rparr>,
      \<lparr>fname = Str ''c.jpg'', stage = ''HH12'', locations = ''limb''\<rparr>,
      \<lparr>fname = Str ''d.jpg'', stage = ''HH8'', locations = ''somites''\<rparr>]"

definition scenario_database :: "nat database" where
  "scenario_database =
     \<lparr>filenames = [''a.jpg'', ''b.jpg''], stage_preds = [10, 11], locations_preds = [20, 21]\<rparr>"

definition scenario_env :: "nat env" where
  "scenario_env =
     \<lparr>argv = [''src/update-data.py'', ''/home/geisha/images/''],
      today = \<lparr>year = 2020, month = 3, day = 7\<rparr>,
      urlretrieve = (\<lambda>url. if url = new_images_metadata_url ''03/01/20'' then Inr scenario_csv
                           else Inl URLError),
      read_csv = (\<lambda>text. if text = scenario_csv then Inr scenario_metadata else Inl ParserError),
      path_exists = (\<lambda>p. p = ''/home/geisha/images/c.jpg''),
      stage_get_preds = (\<lambda>d names. Inr (map (\<lambda>_. 12) names)),
      locations_get_preds = (\<lambda>d names. Inr (map (\<lambda>_. 22) names)),
      fault = (\<lambda>_. None)\<rparr>"

definition scenario_state :: "nat state" where
  "scenario_state =
     \<lparr>temporary_downloads = False,
      new_images_csv = None,
      last_updated = Some ''03/01/20'',
      database_pkl = Pickled scenario_database,
      data_updates_log = Some [],
      trace = []\<rparr>"

lemmas scenario_defs = scenario_env_def scenario_state_def scenario_database_def
  scenario_metadata_def scenario_csv_def

lemmas job_defs = run_def select_new_images_def startup_def grab_image_home_dir_def
  filter_new_images_def setdiff1d_def unique_def update_def inference_def merge_def persist_def
  save_object_def write_last_updated_def append_log_def emit_def new_images_metadata_url_def
  strftime_def two_digits_def digit_def log_line_def Let_def

text \<open>
  Variations of the worked run: the same service answer once \<^verbatim>\<open>c.jpg\<close> is saved; a stage
  model that returns no prediction; a disk that fills up while the dataset is dumped; a service
  with nothing to report; one more argument on the command line; a service that cannot be
  reached; and the image directory given without its final separator.
\<close>

definition rerun_state :: "nat state" where
  "rerun_state =
     scenario_state\<lparr>database_pkl :=
       Pickled \<lparr>filenames = [''a.jpg'', ''b.jpg'', ''c.jpg''],
                stage_preds = [10, 11, 12], locations_preds = [20, 21, 22]\<rparr>\<rparr>"

definition short_env :: "nat env" where
  "short_env = scenario_env\<lparr>stage_get_preds := (\<lambda>d names. Inr [])\<rparr>"

definition disk_full_env :: "nat env" where
  "disk_full_env =
     scenario_env\<lparr>fault := (\<lambda>st. if st = PickleDump then Some OSError else None)\<rparr>"

definition quiet_env :: "nat env" where
  "quiet_env =
     scenario_env\<lparr>urlretrieve := (\<lambda>url. Inr []), read_csv := (\<lambda>text. Inr [])\<rparr>"

definition extra_argument_env :: "nat env" where
  "extra_argument_env =
     scenario_env\<lparr>argv := [''src/update-data.py'', ''/home/geisha/images/'', ''extra'']\<rparr>"

definition offline_env :: "nat env" where
  "offline_env = scenario_env\<lparr>urlretrieve := (\<lambda>url. Inl URLError)\<rparr>"

definition no_slash_env :: "nat env" where
  "no_slash_env = scenario_env\<lparr>argv := [''src/update-data.py'', ''/home/geisha/images'']\<rparr>"

lemmas fixture_defs = rerun_state_def short_env_def disk_full_env_def quiet_env_def
  extra_argument_env_def offline_env_def no_slash_env_def

subsection \<open>Two notions of the specification\<close>


definition decimal :: "string \<Rightarrow> nat" where
  "decimal cs = foldl (\<lambda>n c. 10 * n + (of_char c - 48)) 0 cs"

section \<open>Properties\<close>

subsection \<open>The numpy operations\<close>

lemma distinct_remdups_adj_sorted:
  "sorted (xs :: 'a :: linorder list) \<Longrightarrow> distinct (remdups_adj xs)"
  by (induction xs rule: remdups_adj.induct) auto

lemma set_unique: "set (unique ar) = set ar"
  by (simp add: unique_def)

lemma sorted_unique: "sorted (unique ar)"
  by (simp add: unique_def)

lemma distinct_unique: "distinct (unique ar)"
  by (simp add: unique_def distinct_remdups_adj_sorted)

lemma set_setdiff1d: "set (setdiff1d ar1 ar2) = set ar1 - set ar2"
  by (auto simp: setdiff1d_def Let_def set_unique)

lemma sorted_setdiff1d: "sorted (setdiff1d ar1 ar2)"
  by (simp add: setdiff1d_def Let_def sorted_unique sorted_wrt_filter)

lemma distinct_setdiff1d: "distinct (setdiff1d ar1 ar2)"
  by (simp add: setdiff1d_def Let_def distinct_unique)

subsection \<open>The filter\<close>

lemma set_str_values: "set (str_values cells) = {name. Str name \<in> set cells}"
  by (induction cells rule: str_values.induct) auto

lemma remove_loop_Some:
  "remove_loop (Some d) ex db cells acc =
     (if NotStr \<in> set cells then Inl TypeError
      else Inr (acc @ filter (\<lambda>f. f \<in> set db \<or> \<not> ex (d @ f)) (str_values cells)))"
  by (induction cells arbitrary: acc rule: str_values.induct) (simp_all add: Let_def)

lemma remove_loop_None:
  "remove_loop None ex db cells acc = (if cells = [] then Inr acc else Inl NameError)"
  by (cases cells) simp_all

lemma filter_new_images_Some:
  "filter_new_images (Some d) ex db cells =
     (if NotStr \<in> set cells then Inl TypeError
      else Inr (setdiff1d (str_values cells)
             (filter (\<lambda>f. f \<in> set db \<or> \<not> ex (d @ f)) (str_values cells))))"
  by (simp add: filter_new_images_def remove_loop_Some)

lemma filter_new_images_None:
  "filter_new_images None ex db cells = (if cells = [] then Inr [] else Inl NameError)"
  by (simp add: filter_new_images_def remove_loop_None setdiff1d_def unique_def)

lemma filter_new_images_Inr:
  assumes "filter_new_images home ex db cells = Inr new"
  shows "sorted new" and "distinct new" and "set new \<subseteq> set (str_values cells) - set db"
    and "new \<noteq> [] \<Longrightarrow> \<exists>d. home = Some d"
  using assms
  by (cases home; auto simp: filter_new_images_Some filter_new_images_None
        sorted_setdiff1d distinct_setdiff1d set_setdiff1d split: if_splits)+

subsection \<open>What each part of the run leaves alone\<close>

lemma startup_frame:
  assumes "startup env s = (r, s')"
  shows "last_updated s' = last_updated s" and "database_pkl s' = database_pkl s"
    and "data_updates_log s' = data_updates_log s"
  using assms
  by (auto simp: startup_def emit_def Let_def split: option.splits sum.splits pickle_file.splits)

lemma startup_Inr:
  assumes "startup env s = (Inr (names, db), s')"
  shows "database_pkl s = Pickled db"
  using assms
  by (auto simp: startup_def emit_def Let_def split: option.splits sum.splits pickle_file.splits)

lemma select_frame:
  assumes "select_new_images env s = (r, s1)"
  shows "last_updated s1 = last_updated s" and "database_pkl s1 = database_pkl s"
    and "data_updates_log s1 = data_updates_log s"
  using assms
  by (auto simp: select_new_images_def split: sum.splits prod.splits dest: startup_frame)

lemma select_Inr:
  assumes "select_new_images env s = (Inr (home, new, db), s1)"
  shows "database_pkl s = Pickled db" and "sorted new" and "distinct new"
    and "set new \<inter> set (filenames db) = {}" and "new \<noteq> [] \<Longrightarrow> \<exists>d. home = Some d"
  using assms
  by (auto simp: select_new_images_def split: sum.splits prod.splits
      dest: startup_Inr filter_new_images_Inr)

lemma merge_Inr:
  assumes "merge db new sp lp = Inr updated"
  shows "filenames updated = filenames db @ new" and "stage_preds updated = stage_preds db @ sp"
    and "locations_preds updated = locations_preds db @ lp"
    and "length sp = length new" and "length lp = length new"
  using assms by (auto simp: merge_def Let_def split: if_splits)

lemma persist_Inr:
  assumes "persist env new updated s = (Inr u, s')"
  shows "database_pkl s' = Pickled updated"
    and "last_updated s' = Some (strftime (today env))"
  using assms
  by (auto simp: persist_def save_object_def write_last_updated_def append_log_def emit_def Let_def
      split: sum.splits prod.splits option.splits)

lemma update_Inr:
  assumes "update env home new db s = (Inr u, s')"
  shows "\<exists>updated sp lp. merge db new sp lp = Inr updated \<and> database_pkl s' = Pickled updated
           \<and> last_updated s' = Some (strftime (today env))"
  using assms
  by (auto simp: update_def split: sum.splits prod.splits dest: persist_Inr)

subsection \<open>Length invariant\<close>

text \<open>
  Claim C1. Take a run that selects a non-empty list \<open>new\<close> of new images and returns
  without raising, from a dataset \<open>db\<close> whose three sequences have one length. Then the
  dataset file afterwards holds a dataset whose three sequences again have one length, and
  that length is the length before the run plus the number of selected images.
\<close>

theorem update_lengths:
  assumes "select_new_images env s = (Inr (home, new, db), s1)"
    and "new \<noteq> []"
    and "run env s = (Inr (), s')"
    and "length (filenames db) = length (stage_preds db)"
    and "length (stage_preds db) = length (locations_preds db)"
  shows "database_pkl s = Pickled db \<and>
         (\<exists>db'. database_pkl s' = Pickled db' \<and>
            length (filenames db') = length (stage_preds db') \<and>
            length (stage_preds db') = length (locations_preds db') \<and>
            length (filenames db') = length (filenames db) + length new)"
proof -
  from assms(1) have pre: "database_pkl s = Pickled db" by (rule select_Inr)
  from assms(1-3) have "update env home new db s1 = (Inr (), s')"
    by (simp add: run_def)
  then obtain updated sp lp where m: "merge db new sp lp = Inr updated"
    and post: "database_pkl s' = Pickled updated"
    using update_Inr by blast
  from m assms(4,5) have "length (filenames updated) = length (stage_preds updated)"
    "length (stage_preds updated) = length (locations_preds updated)"
    "length (filenames updated) = length (filenames db) + length new"
    by (simp_all add: merge_Inr)
  with pre post show ?thesis by blast
qed

theorem update_lengths_witness:
  "fst (select_new_images scenario_env scenario_state) =
     Inr (Some ''/home/geisha/images/'', [''c.jpg''], scenario_database)
   \<and> fst (run scenario_env scenario_state) = Inr ()
   \<and> length (filenames scenario_database) = 2
   \<and> length (stage_preds scenario_database) = 2
   \<and> length (locations_preds scenario_database) = 2
   \<and> (\<exists>db'. database_pkl (snd (run scenario_env scenario_state)) = Pickled db' \<and>
          length (filenames db') = 3 \<and> length (stage_preds db') = 3 \<and>
          length (locations_preds db') = 3)"
proof -
  have sel: "select_new_images scenario_env scenario_state =
      (Inr (Some ''/home/geisha/images/'', [''c.jpg''], scenario_database),
       snd (select_new_images scenario_env scenario_state))"
    by (simp add: prod_eq_iff scenario_defs job_defs)
  have r: "run scenario_env scenario_state = (Inr (), snd (run scenario_env scenario_state))"
    by (simp add: prod_eq_iff scenario_defs job_defs)
  have ne: "[''c.jpg''] \<noteq> []" by simp
  have inv: "length (filenames scenario_database) = length (stage_preds scenario_database)"
    "length (stage_preds scenario_database) = length (locations_preds scenario_database)"
    by (simp_all add: scenario_database_def)
  have f1: "fst (select_new_images scenario_env scenario_state) =
      Inr (Some ''/home/geisha/images/'', [''c.jpg''], scenario_database)"
    using sel by (metis fst_conv)
  have f2: "fst (run scenario_env scenario_state) = Inr ()"
    using r by (metis fst_conv)
  have n: "length (filenames scenario_database) = 2" "length (stage_preds scenario_database) = 2"
    "length (locations_preds scenario_database) = 2"
    by (simp_all add: scenario_database_def)
  from update_lengths [OF sel ne r inv] obtain db' where
    "database_pkl (snd (run scenario_env scenario_state)) = Pickled db'"
    "length (filenames db') = length (stage_preds db')"
    "length (stage_preds db') = length (locations_preds db')"
    "length (filenames db') = length (filenames scenario_database) + length [''c.jpg'']"
    by blast
  with n have "\<exists>db'. database_pkl (snd (run scenario_env scenario_state)) = Pickled db' \<and>
      length (filenames db') = 3 \<and> length (stage_preds db') = 3 \<and>
      length (locations_preds db') = 3"
    by auto
  with f1 f2 n show ?thesis by blast
qed

subsection \<open>What the filter returns\<close>

lemma unique_cong: "set xs = set ys \<Longrightarrow> unique xs = unique ys"
  by (rule sorted_distinct_set_unique) (simp_all add: sorted_unique distinct_unique set_unique)

lemma setdiff1d_filter:
  "setdiff1d names (filter (\<lambda>f. \<not> keep f) names) = unique (filter keep names)"
  by (rule sorted_distinct_set_unique)
     (auto simp: sorted_setdiff1d distinct_setdiff1d set_setdiff1d sorted_unique distinct_unique
        set_unique)

lemma filter_new_images_unique:
  "filter_new_images (Some d) ex db cells =
     (if NotStr \<in> set cells then Inl TypeError
      else Inr (unique (filter (\<lambda>f. f \<notin> set db \<and> ex (d @ f)) (str_values cells))))"
  using setdiff1d_filter [of "str_values cells" "\<lambda>f. f \<notin> set db \<and> ex (d @ f)"]
  by (simp add: filter_new_images_Some)

lemma filter_new_images_cong:
  assumes "set cells' = set cells"
  shows "filter_new_images home ex db cells' = filter_new_images home ex db cells"
proof (cases home)
  case None
  from assms have "cells' = [] \<longleftrightarrow> cells = []" by (metis set_empty)
  with None show ?thesis by (simp add: filter_new_images_None)
next
  case (Some d)
  from assms have "set (str_values cells') = set (str_values cells)"
    by (simp add: set_str_values)
  then have "set (filter (\<lambda>f. f \<notin> set db \<and> ex (d @ f)) (str_values cells'))
      = set (filter (\<lambda>f. f \<notin> set db \<and> ex (d @ f)) (str_values cells))" by simp
  then have "unique (filter (\<lambda>f. f \<notin> set db \<and> ex (d @ f)) (str_values cells'))
      = unique (filter (\<lambda>f. f \<notin> set db \<and> ex (d @ f)) (str_values cells))"
    by (rule unique_cong)
  with assms show ?thesis unfolding Some filter_new_images_unique by simp
qed

text \<open>
  Claim C10. Whenever the filter step returns a list, that list is in ascending order and
  holds no filename twice, whatever the order and the repetitions of the fetched filenames:
  any other list of fetched filenames with the same elements gives the same result.
\<close>

theorem filter_sorted_distinct:
  assumes "filter_new_images home ex db names = Inr new"
    and "set names' = set names"
  shows "sorted new \<and> distinct new \<and> Str ` set new \<subseteq> set names
         \<and> filter_new_images home ex db names' = Inr new"
  using filter_new_images_Inr [OF assms(1)] filter_new_images_cong [OF assms(2)] assms(1)
  by (auto simp: set_str_values)

theorem filter_sorted_distinct_witness:
  "filter_new_images (Some ''/home/geisha/images/'') (\<lambda>p. True) [''a.jpg'']
      [Str ''d.jpg'', Str ''c.jpg'', Str ''a.jpg'', Str ''d.jpg''] = Inr [''c.jpg'', ''d.jpg'']
   \<and> set [Str ''c.jpg'', Str ''d.jpg'', Str ''a.jpg'']
       = set [Str ''d.jpg'', Str ''c.jpg'', Str ''a.jpg'', Str ''d.jpg'']
   \<and> sorted [''c.jpg'', ''d.jpg''] \<and> distinct [''c.jpg'', ''d.jpg'']
   \<and> filter_new_images (Some ''/home/geisha/images/'') (\<lambda>p. True) [''a.jpg'']
        [Str ''c.jpg'', Str ''d.jpg'', Str ''a.jpg''] = Inr [''c.jpg'', ''d.jpg'']"
proof -
  have a: "filter_new_images (Some ''/home/geisha/images/'') (\<lambda>p. True) [''a.jpg'']
      [Str ''d.jpg'', Str ''c.jpg'', Str ''a.jpg'', Str ''d.jpg''] = Inr [''c.jpg'', ''d.jpg'']"
    by (simp add: filter_new_images_def setdiff1d_def unique_def Let_def)
  have b: "set [Str ''c.jpg'', Str ''d.jpg'', Str ''a.jpg'']
       = set [Str ''d.jpg'', Str ''c.jpg'', Str ''a.jpg'', Str ''d.jpg'']"
    by auto
  from filter_sorted_distinct [OF a b] a b show ?thesis by blast
qed




subsection \<open>What a run can leave in the dataset file\<close>

lemma count_list_distinct: "distinct xs \<Longrightarrow> x \<in> set xs \<Longrightarrow> count_list xs x = 1"
  by (induction xs) auto

lemma inference_frame:
  assumes "inference env home new s = (r, s')"
  shows "s' = s\<lparr>trace := trace s'\<rparr>"
  using assms
  by (auto simp: inference_def emit_def Let_def split: option.splits sum.splits)

lemma inference_files:
  assumes "inference env home new s = (r, s')"
  shows "database_pkl s' = database_pkl s" and "last_updated s' = last_updated s"
    and "data_updates_log s' = data_updates_log s"
  using inference_frame [OF assms] by (metis state.select_convs state.surjective state.update_convs(6))+

lemma persist_database:
  assumes "persist env new updated s = (r, s')"
  shows "database_pkl s' = database_pkl s \<or> database_pkl s' = Truncated
         \<or> database_pkl s' = Pickled updated"
  using assms
  by (auto simp: persist_def save_object_def write_last_updated_def append_log_def emit_def Let_def
      split: sum.splits prod.splits option.splits)

lemma update_database:
  assumes "update env home new db s = (r, s')"
  shows "database_pkl s' = database_pkl s \<or> database_pkl s' = Truncated
         \<or> (\<exists>updated sp lp. merge db new sp lp = Inr updated \<and> database_pkl s' = Pickled updated)"
  using assms
  by (auto simp: update_def split: sum.splits prod.splits
      dest: inference_files(1) dest!: persist_database)

lemma run_database:
  assumes "run env s = (r, s')" and "database_pkl s = Pickled db"
    and "database_pkl s' = Pickled db'"
  shows "db' = db \<or> (\<exists>new. distinct new \<and> set new \<inter> set (filenames db) = {}
           \<and> filenames db' = filenames db @ new)"
proof (cases "select_new_images env s")
  case (Pair r1 s1)
  note fr = select_frame(2) [OF Pair]
  show ?thesis
  proof (cases r1)
    case (Inl e)
    with Pair assms(1) have "s' = s1" by (simp add: run_def)
    with fr assms(2,3) show ?thesis by simp
  next
    case (Inr t)
    obtain home new db0 where t: "t = (home, new, db0)" by (cases t)
    note sel = Pair [unfolded Inr t]
    from select_Inr(1) [OF sel] assms(2) have db0: "db0 = db" by simp
    show ?thesis
    proof (cases "new = []")
      case True
      with sel assms(1) have "s' = emit (Print ''Data already up to date'') s1"
        by (simp add: run_def)
      then have "database_pkl s' = database_pkl s1" by (simp add: emit_def)
      with fr assms(2,3) show ?thesis by simp
    next
      case False
      with sel assms(1) db0 have "update env home new db s1 = (r, s')"
        by (simp add: run_def)
      from update_database [OF this] fr assms(2,3)
      consider "db' = db"
        | updated sp lp where "merge db new sp lp = Inr updated" "db' = updated"
        by auto
      then show ?thesis
      proof cases
        case 1 then show ?thesis by simp
      next
        case 2
        with merge_Inr(1) [OF 2(1)] select_Inr(3,4) [OF sel] db0 show ?thesis by auto
      qed
    qed
  qed
qed

text \<open>
  Claim C2. Take any run, started on a dataset in which no filename appears twice, and a
  filename \<open>f\<close> of that dataset. Whatever the service reported, in the dataset the file
  holds after the run \<open>f\<close> appears exactly once, and no filename appears twice.
\<close>

theorem saved_filename_once:
  assumes "run env s = (r, s')"
    and "database_pkl s = Pickled db"
    and "distinct (filenames db)"
    and "f \<in> set (filenames db)"
    and "database_pkl s' = Pickled db'"
  shows "count_list (filenames db') f = 1 \<and> distinct (filenames db')"
proof -
  from run_database [OF assms(1,2,5)] assms(3)
  have d: "distinct (filenames db')" and sub: "set (filenames db) \<subseteq> set (filenames db')"
    by auto
  from sub assms(4) have "f \<in> set (filenames db')" by auto
  with d show ?thesis by (simp add: count_list_distinct)
qed

theorem saved_filename_once_witness:
  "database_pkl scenario_state = Pickled scenario_database
   \<and> distinct (filenames scenario_database)
   \<and> ''b.jpg'' \<in> set (filenames scenario_database)
   \<and> database_pkl (snd (run scenario_env scenario_state)) =
        Pickled \<lparr>filenames = [''a.jpg'', ''b.jpg'', ''c.jpg''],
                 stage_preds = [10, 11, 12], locations_preds = [20, 21, 22]\<rparr>
   \<and> count_list [''a.jpg'', ''b.jpg'', ''c.jpg''] ''b.jpg'' = 1"
proof -
  have r: "run scenario_env scenario_state =
      (fst (run scenario_env scenario_state), snd (run scenario_env scenario_state))"
    by simp
  have pre: "database_pkl scenario_state = Pickled scenario_database"
    by (simp add: scenario_state_def)
  have d: "distinct (filenames scenario_database)"
    by (simp add: scenario_database_def)
  have m: "''b.jpg'' \<in> set (filenames scenario_database)"
    by (simp add: scenario_database_def)
  have post: "database_pkl (snd (run scenario_env scenario_state)) =
        Pickled \<lparr>filenames = [''a.jpg'', ''b.jpg'', ''c.jpg''],
                 stage_preds = [10, 11, 12], locations_preds = [20, 21, 22]\<rparr>"
    by (simp add: scenario_defs job_defs)
  from saved_filename_once [OF r pre d m post] pre d m post show ?thesis by simp
qed

subsection \<open>Runs with nothing new, and the checkpoint\<close>

lemma startup_trace:
  assumes "startup env s = (Inr (names, db), s1)"
  shows "\<exists>since. last_updated s = Some since \<and>
           trace s1 = trace s @ [Mkdir ''temporary-downloads'', Print ''Checking for new images'',
                                 Urlretrieve (new_images_metadata_url since)]"
  using assms
  by (auto simp: startup_def emit_def Let_def split: option.splits sum.splits pickle_file.splits)

lemma select_trace:
  assumes "select_new_images env s = (Inr (home, new, db), s1)"
  shows "\<exists>since. last_updated s = Some since \<and>
           trace s1 = trace s @ [Mkdir ''temporary-downloads'', Print ''Checking for new images'',
                                 Urlretrieve (new_images_metadata_url since)]"
  using assms
  by (auto simp: select_new_images_def split: sum.splits prod.splits dest: startup_trace)

text \<open>
  Claim C4. Whenever the filter leaves no new image, the run returns normally, the dataset
  file, the checkpoint and the update log are what they were, and the calls made are exactly
  the creation of the download directory, the first message, the download and the message
  that the data is up to date: no model is loaded, no prediction is computed, nothing is
  saved.
\<close>

theorem nothing_new_nothing_done:
  assumes "select_new_images env s = (Inr (home, [], db), s1)"
  shows "fst (run env s) = Inr ()
       \<and> database_pkl (snd (run env s)) = database_pkl s
       \<and> last_updated (snd (run env s)) = last_updated s
       \<and> data_updates_log (snd (run env s)) = data_updates_log s
       \<and> (\<exists>since. trace (snd (run env s)) =
             trace s @ [Mkdir ''temporary-downloads'', Print ''Checking for new images'',
                        Urlretrieve (new_images_metadata_url since),
                        Print ''Data already up to date''])"
proof -
  from assms have r: "run env s = (Inr (), emit (Print ''Data already up to date'') s1)"
    by (simp add: run_def)
  from select_trace [OF assms] obtain since where
    "trace s1 = trace s @ [Mkdir ''temporary-downloads'', Print ''Checking for new images'',
                           Urlretrieve (new_images_metadata_url since)]"
    by blast
  then have "trace (snd (run env s)) =
      trace s @ [Mkdir ''temporary-downloads'', Print ''Checking for new images'',
                 Urlretrieve (new_images_metadata_url since), Print ''Data already up to date'']"
    by (simp add: r emit_def)
  then have "\<exists>since. trace (snd (run env s)) =
      trace s @ [Mkdir ''temporary-downloads'', Print ''Checking for new images'',
                 Urlretrieve (new_images_metadata_url since), Print ''Data already up to date'']"
    by blast
  with select_frame [OF assms] show ?thesis
    by (simp add: r emit_def)
qed

theorem nothing_new_nothing_done_witness:
  "fst (select_new_images scenario_env rerun_state) =
     Inr (Some ''/home/geisha/images/'', [],
          \<lparr>filenames = [''a.jpg'', ''b.jpg'', ''c.jpg''],
             stage_preds = [10, 11, 12], locations_preds = [20, 21, 22]\<rparr>)
   \<and> fst (run scenario_env rerun_state) = Inr ()
   \<and> database_pkl (snd (run scenario_env rerun_state)) = database_pkl rerun_state
   \<and> last_updated (snd (run scenario_env rerun_state)) = Some ''03/01/20''
   \<and> data_updates_log (snd (run scenario_env rerun_state)) = Some []"
proof -
  have sel: "select_new_images scenario_env rerun_state =
      (Inr (Some ''/home/geisha/images/'', [],
            \<lparr>filenames = [''a.jpg'', ''b.jpg'', ''c.jpg''],
               stage_preds = [10, 11, 12], locations_preds = [20, 21, 22]\<rparr>),
       snd (select_new_images scenario_env rerun_state))"
    by (simp add: prod_eq_iff rerun_state_def scenario_defs job_defs)
  have f: "fst (select_new_images scenario_env rerun_state) =
     Inr (Some ''/home/geisha/images/'', [],
          \<lparr>filenames = [''a.jpg'', ''b.jpg'', ''c.jpg''],
             stage_preds = [10, 11, 12], locations_preds = [20, 21, 22]\<rparr>)"
    using sel by (metis fst_conv)
  have pre: "last_updated rerun_state = Some ''03/01/20''" "data_updates_log rerun_state = Some []"
    by (simp_all add: rerun_state_def scenario_state_def)
  from nothing_new_nothing_done [OF sel] f pre show ?thesis by simp
qed

lemma run_empty:
  assumes "select_new_images env s = (Inr (home, [], db), s1)"
  shows "run env s = (Inr (), emit (Print ''Data already up to date'') s1)"
  using assms by (simp add: run_def)

lemma run_nonempty:
  assumes "select_new_images env s = (Inr (home, new, db), s1)" and "new \<noteq> []"
  shows "run env s = update env home new db s1"
  using assms by (simp add: run_def)

subsection \<open>What the checkpoint holds\<close>

lemma digit_cases:
  "(digit k, k mod 10) \<in> {(CHR ''0'', 0), (CHR ''1'', 1), (CHR ''2'', 2), (CHR ''3'', 3),
      (CHR ''4'', 4), (CHR ''5'', 5), (CHR ''6'', 6), (CHR ''7'', 7), (CHR ''8'', 8), (CHR ''9'', 9)}"
proof -
  have "k mod 10 < 10" by simp
  then have "k mod 10 = 0 \<or> k mod 10 = 1 \<or> k mod 10 = 2 \<or> k mod 10 = 3 \<or> k mod 10 = 4
      \<or> k mod 10 = 5 \<or> k mod 10 = 6 \<or> k mod 10 = 7 \<or> k mod 10 = 8 \<or> k mod 10 = 9"
    by arith
  then show ?thesis by (elim disjE) (simp_all add: digit_def)
qed

lemma digit_value: "of_char (digit k) - 48 = k mod 10"
  using digit_cases [of k] by auto

lemma digit_is_digit: "digit k \<in> set ''0123456789''"
  using digit_cases [of k] by auto

lemma two_digits_decimal:
  assumes "n < 100"
  shows "length (two_digits n) = 2" and "set (two_digits n) \<subseteq> set ''0123456789''"
    and "decimal (two_digits n) = n"
proof -
  show "length (two_digits n) = 2" by (simp add: two_digits_def)
  show "set (two_digits n) \<subseteq> set ''0123456789''"
    using digit_is_digit [of "n div 10"] digit_is_digit [of n] by (simp add: two_digits_def)
  have "n div 10 mod 10 = n div 10" using assms by simp
  then show "decimal (two_digits n) = n"
    by (simp add: two_digits_def decimal_def digit_value)
qed

lemma strftime_reads_back:
  assumes "month d \<le> 12" and "day d \<le> 31"
  shows "\<exists>mm dd yy. strftime d = mm @ ''/'' @ dd @ ''/'' @ yy
           \<and> length mm = 2 \<and> length dd = 2 \<and> length yy = 2
           \<and> set (mm @ dd @ yy) \<subseteq> set ''0123456789''
           \<and> decimal mm = month d \<and> decimal dd = day d \<and> decimal yy = year d mod 100"
proof -
  have m: "month d < 100" and a: "day d < 100" and y: "year d mod 100 < 100"
    using assms by simp_all
  have "strftime d = two_digits (month d) @ ''/'' @ two_digits (day d) @ ''/''
      @ two_digits (year d mod 100)"
    by (simp add: strftime_def)
  moreover have "set (two_digits (month d) @ two_digits (day d) @ two_digits (year d mod 100))
      \<subseteq> set ''0123456789''"
    using two_digits_decimal(2) [OF m] two_digits_decimal(2) [OF a] two_digits_decimal(2) [OF y]
    by simp
  ultimately show ?thesis
    using two_digits_decimal(1,3) [OF m] two_digits_decimal(1,3) [OF a]
      two_digits_decimal(1,3) [OF y]
    by blast
qed

text \<open>
  Claim C7. After a run that selected at least one new image and returned normally, the
  checkpoint file holds the date of the run: two decimal digits that read as the month, a
  slash, two digits that read as the day, a slash, and two digits that read as the year
  within its century (the date of a run is a calendar date, so its month is at most 12 and
  its day at most 31). After a run that selected none, the checkpoint file is unchanged.
\<close>

theorem checkpoint_after_run:
  assumes "select_new_images env s = (Inr (home, new, db), s1)"
    and "run env s = (r, s')"
    and "month (today env) \<le> 12"
    and "day (today env) \<le> 31"
  shows "(new \<noteq> [] \<and> r = Inr () \<longrightarrow>
            last_updated s' = Some (strftime (today env))
            \<and> (\<exists>mm dd yy. last_updated s' = Some (mm @ ''/'' @ dd @ ''/'' @ yy)
                  \<and> length mm = 2 \<and> length dd = 2 \<and> length yy = 2
                  \<and> set (mm @ dd @ yy) \<subseteq> set ''0123456789''
                  \<and> decimal mm = month (today env) \<and> decimal dd = day (today env)
                  \<and> decimal yy = year (today env) mod 100))
       \<and> (new = [] \<longrightarrow> r = Inr () \<and> last_updated s' = last_updated s)"
proof (cases "new = []")
  case True
  from assms(1) have "run env s = (Inr (), emit (Print ''Data already up to date'') s1)"
    unfolding True by (rule run_empty)
  with assms(2) have "r = Inr ()" "s' = emit (Print ''Data already up to date'') s1"
    by simp_all
  with True select_frame(1) [OF assms(1)] show ?thesis by (simp add: emit_def)
next
  case False
  with run_nonempty [OF assms(1)] assms(2) have u: "update env home new db s1 = (r, s')" by simp
  have "r = Inr () \<longrightarrow> last_updated s' = Some (strftime (today env))"
    using u by (auto dest: update_Inr)
  with False strftime_reads_back [OF assms(3,4)] show ?thesis by auto
qed

theorem checkpoint_after_run_witness:
  "fst (select_new_images scenario_env scenario_state) =
     Inr (Some ''/home/geisha/images/'', [''c.jpg''], scenario_database)
   \<and> fst (run scenario_env scenario_state) = Inr ()
   \<and> today scenario_env = \<lparr>year = 2020, month = 3, day = 7\<rparr>
   \<and> last_updated scenario_state = Some ''03/01/20''
   \<and> last_updated (snd (run scenario_env scenario_state)) = Some ''03/07/20''
   \<and> decimal ''03'' = 3 \<and> decimal ''07'' = 7 \<and> decimal ''20'' = 2020 mod 100
   \<and> fst (select_new_images scenario_env rerun_state) =
     Inr (Some ''/home/geisha/images/'', [],
          \<lparr>filenames = [''a.jpg'', ''b.jpg'', ''c.jpg''],
             stage_preds = [10, 11, 12], locations_preds = [20, 21, 22]\<rparr>)
   \<and> last_updated rerun_state = Some ''03/01/20''
   \<and> last_updated (snd (run scenario_env rerun_state)) = Some ''03/01/20''"
proof -
  have sel: "select_new_images scenario_env scenario_state =
      (Inr (Some ''/home/geisha/images/'', [''c.jpg''], scenario_database),
       snd (select_new_images scenario_env scenario_state))"
    by (simp add: prod_eq_iff scenario_defs job_defs)
  have r: "run scenario_env scenario_state = (Inr (), snd (run scenario_env scenario_state))"
    by (simp add: prod_eq_iff scenario_defs job_defs)
  have sel': "select_new_images scenario_env rerun_state =
      (Inr (Some ''/home/geisha/images/'', [],
            \<lparr>filenames = [''a.jpg'', ''b.jpg'', ''c.jpg''],
               stage_preds = [10, 11, 12], locations_preds = [20, 21, 22]\<rparr>),
       snd (select_new_images scenario_env rerun_state))"
    by (simp add: prod_eq_iff rerun_state_def scenario_defs job_defs)
  have r': "run scenario_env rerun_state =
      (fst (run scenario_env rerun_state), snd (run scenario_env rerun_state))"
    by simp
  have d: "today scenario_env = \<lparr>year = 2020, month = 3, day = 7\<rparr>"
    "strftime (today scenario_env) = ''03/07/20''"
    by (simp_all add: scenario_env_def strftime_def two_digits_def digit_def)
  have cal: "month (today scenario_env) \<le> 12" "day (today scenario_env) \<le> 31"
    by (simp_all add: scenario_env_def)
  have dec: "decimal ''03'' = 3" "decimal ''07'' = 7" "decimal ''20'' = 2020 mod 100"
    by (simp_all add: decimal_def)
  have pre: "last_updated scenario_state = Some ''03/01/20''"
    "last_updated rerun_state = Some ''03/01/20''"
    by (simp_all add: rerun_state_def scenario_state_def)
  have f: "fst (select_new_images scenario_env scenario_state) =
     Inr (Some ''/home/geisha/images/'', [''c.jpg''], scenario_database)"
    "fst (run scenario_env scenario_state) = Inr ()"
    "fst (select_new_images scenario_env rerun_state) =
     Inr (Some ''/home/geisha/images/'', [],
          \<lparr>filenames = [''a.jpg'', ''b.jpg'', ''c.jpg''],
             stage_preds = [10, 11, 12], locations_preds = [20, 21, 22]\<rparr>)"
    using sel r sel' by (metis fst_conv)+
  from checkpoint_after_run [OF sel r cal] checkpoint_after_run [OF sel' r' cal] d dec pre f
  show ?thesis by simp
qed

subsection \<open>Failing runs\<close>

lemma inference_Inr:
  assumes "inference env (Some d) new s = (Inr (sp, lp), s')"
  shows "stage_get_preds env d new = Inr sp" and "locations_get_preds env d new = Inr lp"
  using assms
  by (auto simp: inference_def Let_def split: option.splits sum.splits)

lemma inference_no_fault:
  assumes "fault env Databunch = None" and "fault env LoadStageModel = None"
    and "fault env LoadLocationsModel = None"
    and "stage_get_preds env d new = Inr sp" and "locations_get_preds env d new = Inr lp"
  shows "fst (inference env (Some d) new s) = Inr (sp, lp)"
  using assms by (simp add: inference_def Let_def)

lemma merge_mismatch:
  assumes "length sp \<noteq> length new \<or> length lp \<noteq> length new"
  shows "merge db new sp lp = Inl AssertionError"
  using assms by (auto simp: merge_def Let_def)

text \<open>
  Claim C6. Take a run that selected a non-empty list \<open>new\<close> and in which the two models
  returned \<open>sp\<close> and \<open>lp\<close>, one of them not of the length of \<open>new\<close>. The run raises,
  and the dataset file, the checkpoint and the update log are what they were before the
  run. Unless building the data or loading a model raised first, the exception is the
  \<^verbatim>\<open>AssertionError\<close> of line 99 or 100.
\<close>

theorem count_mismatch_fails:
  assumes "select_new_images env s = (Inr (Some d, new, db), s1)"
    and "new \<noteq> []"
    and "stage_get_preds env d new = Inr sp"
    and "locations_get_preds env d new = Inr lp"
    and "length sp \<noteq> length new \<or> length lp \<noteq> length new"
    and "run env s = (r, s')"
  shows "(\<exists>e. r = Inl e)
       \<and> database_pkl s' = database_pkl s
       \<and> last_updated s' = last_updated s
       \<and> data_updates_log s' = data_updates_log s
       \<and> (fault env Databunch = None \<and> fault env LoadStageModel = None
            \<and> fault env LoadLocationsModel = None \<longrightarrow> r = Inl AssertionError)"
proof -
  from run_nonempty [OF assms(1,2)] assms(6)
  have u: "update env (Some d) new db s1 = (r, s')" by simp
  obtain ri s2 where i: "inference env (Some d) new s1 = (ri, s2)" by (cases "inference env (Some d) new s1")
  note f1 = select_frame [OF assms(1)]
  note f2 = inference_files [OF i]
  have res: "(\<exists>e. r = Inl e) \<and> s' = s2
      \<and> (fault env Databunch = None \<and> fault env LoadStageModel = None
            \<and> fault env LoadLocationsModel = None \<longrightarrow> r = Inl AssertionError)"
  proof (cases ri)
    case (Inl e)
    with u i have "r = Inl e" "s' = s2" by (simp_all add: update_def)
    moreover have "fault env Databunch = None \<and> fault env LoadStageModel = None
            \<and> fault env LoadLocationsModel = None \<longrightarrow> False"
      using inference_no_fault [OF _ _ _ assms(3,4), of s1] i Inl by auto
    ultimately show ?thesis by blast
  next
    case (Inr p)
    obtain sp' lp' where p: "p = (sp', lp')" by (cases p)
    from inference_Inr [OF i [unfolded Inr p]] assms(3,4) have "sp' = sp" "lp' = lp" by simp_all
    with u i Inr p merge_mismatch [OF assms(5), of db]
    show ?thesis by (auto simp: update_def)
  qed
  with f1 f2 show ?thesis by simp
qed

theorem count_mismatch_fails_witness:
  "fst (select_new_images short_env scenario_state) =
     Inr (Some ''/home/geisha/images/'', [''c.jpg''], scenario_database)
   \<and> stage_get_preds short_env ''/home/geisha/images/'' [''c.jpg''] = Inr []
   \<and> locations_get_preds short_env ''/home/geisha/images/'' [''c.jpg''] = Inr [22]
   \<and> fst (run short_env scenario_state) = Inl AssertionError
   \<and> database_pkl (snd (run short_env scenario_state)) = database_pkl scenario_state
   \<and> last_updated (snd (run short_env scenario_state)) = last_updated scenario_state
   \<and> data_updates_log (snd (run short_env scenario_state)) = data_updates_log scenario_state"
proof -
  have sel: "select_new_images short_env scenario_state =
      (Inr (Some ''/home/geisha/images/'', [''c.jpg''], scenario_database),
       snd (select_new_images short_env scenario_state))"
    by (simp add: prod_eq_iff short_env_def scenario_defs job_defs)
  have ne: "[''c.jpg''] \<noteq> []" by simp
  have sp: "stage_get_preds short_env ''/home/geisha/images/'' [''c.jpg''] = Inr []"
    by (simp add: short_env_def scenario_env_def)
  have lp: "locations_get_preds short_env ''/home/geisha/images/'' [''c.jpg''] = Inr [22]"
    by (simp add: short_env_def scenario_env_def)
  have bad: "length ([] :: nat list) \<noteq> length [''c.jpg''] \<or> length [22 :: nat] \<noteq> length [''c.jpg'']"
    by simp
  have r: "run short_env scenario_state =
      (fst (run short_env scenario_state), snd (run short_env scenario_state))"
    by simp
  have nf: "fault short_env Databunch = None" "fault short_env LoadStageModel = None"
    "fault short_env LoadLocationsModel = None"
    by (simp_all add: short_env_def scenario_env_def)
  have f: "fst (select_new_images short_env scenario_state) =
     Inr (Some ''/home/geisha/images/'', [''c.jpg''], scenario_database)"
    using sel by (metis fst_conv)
  from count_mismatch_fails [OF sel ne sp lp bad r] nf f sp lp show ?thesis by simp
qed

subsection \<open>Order of the three writes\<close>













subsection \<open>A service with nothing to report\<close>

text \<open>
  Claim C9, as stated, fails: the download is written to
  \<^verbatim>\<open>temporary-downloads/new_images.csv\<close> in every run that reaches the service, so a
  run that fetches no record still creates the directory and the file.
\<close>

theorem empty_fetch_writes_download:
  "last_updated scenario_state = Some ''03/01/20''
   \<and> urlretrieve quiet_env (new_images_metadata_url ''03/01/20'') = Inr []
   \<and> read_csv quiet_env [] = Inr []
   \<and> fst (run quiet_env scenario_state) = Inr ()
   \<and> temporary_downloads scenario_state = False
   \<and> temporary_downloads (snd (run quiet_env scenario_state)) = True
   \<and> new_images_csv scenario_state = None
   \<and> new_images_csv (snd (run quiet_env scenario_state)) = Some []"
  by (simp add: quiet_env_def scenario_defs job_defs)

text \<open>
  Claim C9, amended. Take a run whose command line is not bare, whose checkpoint is
  readable, to which the service answers and the answer parses to no record, and whose
  dataset file loads. Then the run returns normally after the message that the data is up
  to date, and the state it leaves differs from the one it found only in the download
  directory (created if need be), in the downloaded file (now the answer of the service) and
  in the four calls made: dataset file, checkpoint and update log are untouched.
\<close>

theorem empty_fetch_up_to_date:
  assumes "length (argv env) \<noteq> 1"
    and "last_updated s = Some since"
    and "urlretrieve env (new_images_metadata_url since) = Inr payload"
    and "read_csv env payload = Inr []"
    and "database_pkl s = Pickled db"
  shows "run env s =
     (Inr (),
      s\<lparr>temporary_downloads := True,
        new_images_csv := Some payload,
        trace := trace s @ [Mkdir ''temporary-downloads'', Print ''Checking for new images'',
                            Urlretrieve (new_images_metadata_url since),
                            Print ''Data already up to date'']\<rparr>)"
proof -
  have st: "startup env s =
      (Inr ([], db),
       s\<lparr>temporary_downloads := True, new_images_csv := Some payload,
         trace := trace s @ [Mkdir ''temporary-downloads'', Print ''Checking for new images'',
                             Urlretrieve (new_images_metadata_url since)]\<rparr>)"
    using assms(2-5) by (simp add: startup_def emit_def Let_def)
  obtain home where g: "grab_image_home_dir (argv env) = Inr home"
    using assms(1) by (cases "length (argv env) = 2") (simp_all add: grab_image_home_dir_def)
  have fl: "filter_new_images home (path_exists env) (filenames db) [] = Inr []"
    by (simp add: filter_new_images_def setdiff1d_def unique_def)
  from g st fl show ?thesis
    by (simp add: run_def select_new_images_def emit_def)
qed

theorem empty_fetch_up_to_date_witness:
  "length (argv quiet_env) = 2
   \<and> last_updated scenario_state = Some ''03/01/20''
   \<and> urlretrieve quiet_env (new_images_metadata_url ''03/01/20'') = Inr []
   \<and> read_csv quiet_env [] = Inr []
   \<and> database_pkl scenario_state = Pickled scenario_database
   \<and> run quiet_env scenario_state =
       (Inr (),
        scenario_state\<lparr>temporary_downloads := True,
          new_images_csv := Some [],
          trace := [Mkdir ''temporary-downloads'', Print ''Checking for new images'',
                    Urlretrieve (new_images_metadata_url ''03/01/20''),
                    Print ''Data already up to date'']\<rparr>)"
proof -
  have a: "length (argv quiet_env) \<noteq> 1" "length (argv quiet_env) = 2"
    by (simp_all add: quiet_env_def scenario_env_def)
  have b: "last_updated scenario_state = Some ''03/01/20''"
    by (simp add: scenario_state_def)
  have c: "urlretrieve quiet_env (new_images_metadata_url ''03/01/20'') = Inr []"
    by (simp add: quiet_env_def scenario_env_def)
  have d: "read_csv quiet_env [] = Inr []"
    by (simp add: quiet_env_def scenario_env_def)
  have e: "database_pkl scenario_state = Pickled scenario_database"
    by (simp add: scenario_state_def)
  have t: "trace scenario_state = []"
    by (simp add: scenario_state_def)
  from empty_fetch_up_to_date [OF a(1) b c d e] a(2) b c d e t show ?thesis by simp
qed

subsection \<open>More than one argument\<close>

text \<open>
  Claim C8 does not hold of the script. With two or more arguments after the script name
  neither branch of lines 31 to 34 is taken and \<^verbatim>\<open>image_home_dir\<close> is never bound; the
  worked run with one more argument stops with \<^verbatim>\<open>NameError\<close> at the first fetched
  record and saves nothing, where the same run with the directory alone succeeds.
\<close>

theorem extra_argument_unbound:
  "grab_image_home_dir (script # directory # extra # others) = Inr None
   \<and> argv extra_argument_env = [''src/update-data.py'', ''/home/geisha/images/'', ''extra'']
   \<and> fst (run extra_argument_env scenario_state) = Inl NameError
   \<and> database_pkl (snd (run extra_argument_env scenario_state)) = database_pkl scenario_state
   \<and> last_updated (snd (run extra_argument_env scenario_state)) = last_updated scenario_state
   \<and> argv scenario_env = [''src/update-data.py'', ''/home/geisha/images/'']
   \<and> fst (run scenario_env scenario_state) = Inr ()"
  by (simp add: grab_image_home_dir_def extra_argument_env_def scenario_defs job_defs)

end
